theory Spec2Isabelle
  imports Complex_Main "HOL-Library.Word"
begin

section \<open>Feature gates and cohort sampling of lib/features.js\<close>

text \<open>
  The module exports five predicates over a configuration: the cohort sampler
  \<open>isSampledUser\<close> and four gates built on it. The embedding follows the source
  function by function. Node's \<open>crypto\<close> module is a dependency of the module and
  is not part of it; the test suite replaces it by a stub. It is a parameter of the
  embedding, and every call the module makes to it is recorded in a log, so that
  "no digest is computed" is a statement about the log.
\<close>

subsection \<open>JavaScript values the module handles\<close>

text \<open>
  A uid is a \<open>Buffer\<close> of bytes or a string. A string is a list of characters.
\<close>

datatype uid = Buf "8 word list" | Str string

text \<open>
  Numbers. The sample rate is a finite JavaScript number, every one of which is a
  real. The cohort value is the result of a division and can in principle be
  \<open>NaN\<close> or \<open>Infinity\<close>.
\<close>

datatype js_number = NaN | Infinity | Num real

text \<open>\<open>a < b\<close> for a computed number \<open>a\<close> and a finite \<open>b\<close>: false when \<open>a\<close> is \<open>NaN\<close>.\<close>

fun js_lt :: "js_number \<Rightarrow> real \<Rightarrow> bool" where
  "js_lt (Num a) b = (a < b)"
| "js_lt NaN b = False"
| "js_lt Infinity b = False"

text \<open>
  The value of an expression that is \<open>true\<close>, \<open>false\<close> or \<open>undefined\<close>; an
  \<open>&&\<close> chain yields its first falsy operand, which may be \<open>undefined\<close>.
\<close>

datatype js_value = JBool bool | JUndefined

fun truthy :: "js_value \<Rightarrow> bool" where
  "truthy (JBool b) = b"
| "truthy JUndefined = False"

datatype js_error = TypeError

subsection \<open>Strings: hexadecimal text, \<open>indexOf\<close>, \<open>substr\<close>, \<open>parseInt\<close>\<close>

definition hex_char :: "nat \<Rightarrow> char" where
  "hex_char n = ''0123456789abcdef'' ! (n mod 16)"

text \<open>\<open>Buffer.toString('hex')\<close>: two lowercase hexadecimal digits for each byte.\<close>

definition toString_hex :: "8 word list \<Rightarrow> string" where
  "toString_hex b = concat (map (\<lambda>w. [hex_char (unat w div 16), hex_char (unat w mod 16)]) b)"

text \<open>\<open>Number.prototype.toString(16)\<close> on a non-negative integer.\<close>

function toString16 :: "nat \<Rightarrow> string" where
  "toString16 n = (if n < 16 then [hex_char n] else toString16 (n div 16) @ [hex_char (n mod 16)])"
  by pat_completeness auto
termination
  by (relation "measure (\<lambda>n. n)") auto

declare toString16.simps [simp del]

text \<open>\<open>indexOf\<close> of strings and arrays: the first position of the element, or \<open>-1\<close>.\<close>

fun indexOf :: "'a list \<Rightarrow> 'a \<Rightarrow> int" where
  "indexOf [] a = -1"
| "indexOf (x # xs) a =
     (if x = a then 0 else (let i = indexOf xs a in if i = -1 then -1 else i + 1))"

text \<open>
  \<open>String.prototype.substr(start)\<close> with no length: a negative start counts from
  the end of the string, a start beyond the end gives the empty string.
\<close>

definition substr :: "int \<Rightarrow> string \<Rightarrow> string" where
  "substr start s =
     (if start < 0 then drop (nat (max 0 (int (length s) + start))) s
      else drop (nat start) s)"

text \<open>The value of a hexadecimal digit, in either case, as \<open>parseInt\<close> reads it.\<close>

definition hex_digit :: "char \<Rightarrow> nat option" where
  "hex_digit c =
     (let n = (of_char c :: nat) in
      if 48 \<le> n \<and> n \<le> 57 then Some (n - 48)
      else if 97 \<le> n \<and> n \<le> 102 then Some (n - 87)
      else if 65 \<le> n \<and> n \<le> 70 then Some (n - 55)
      else None)"

definition is_hex :: "char \<Rightarrow> bool" where
  "is_hex c = (hex_digit c \<noteq> None)"

fun hex_value :: "nat \<Rightarrow> string \<Rightarrow> nat" where
  "hex_value acc [] = acc"
| "hex_value acc (c # cs) = hex_value (16 * acc + (case hex_digit c of Some v \<Rightarrow> v | None \<Rightarrow> 0)) cs"

text \<open>
  \<open>parseInt(s, 16)\<close> on a window of a hexadecimal digest: the value of the longest
  prefix of hexadecimal digits, and \<open>NaN\<close> (here \<open>None\<close>) when there is none. The
  module calls it on at most 13 digits, where the integer is below \<open>2^53\<close> and is
  a JavaScript number as it stands. Leading white space, a sign and a \<open>0x\<close> prefix,
  which \<open>parseInt\<close> would also accept, do not occur in hexadecimal text.
\<close>

definition parseInt16 :: "string \<Rightarrow> nat option" where
  "parseInt16 s =
     (let ds = takeWhile is_hex s in if ds = [] then None else Some (hex_value 0 ds))"

subsection \<open>Division of JavaScript numbers\<close>

text \<open>
  \<open>/\<close> is IEEE 754 binary64 division: the exact quotient rounded to the nearest
  number with a 53-bit significand, ties to the even significand. The module
  divides one non-negative integer below \<open>2^53\<close> by another. \<open>binade k n d\<close> searches
  from \<open>k\<close> for the scale at which the quotient \<open>n / d\<close> has its leading bit at
  position 52, and the significand is the quotient at that scale, rounded.
\<close>

definition round_half_even :: "nat \<Rightarrow> nat \<Rightarrow> nat" where
  "round_half_even a b =
     (let q = a div b; r = a mod b in
      if 2 * r < b then q
      else if b < 2 * r then q + 1
      else if even q then q else q + 1)"

function binade :: "nat \<Rightarrow> nat \<Rightarrow> nat \<Rightarrow> nat" where
  "binade k n d = (if n = 0 \<or> d * 2 ^ 52 \<le> n * 2 ^ k then k else binade (Suc k) n d)"
  by pat_completeness auto
termination
proof (relation "measure (\<lambda>(k, n, d). d * 2 ^ 52 - n * 2 ^ k)")
  show "wf (measure (\<lambda>(k, n, d). d * 2 ^ 52 - n * 2 ^ k))"
    by simp
next
  fix k n d :: nat
  assume "\<not> (n = 0 \<or> d * 2 ^ 52 \<le> n * 2 ^ k)"
  then have "0 < n" and below: "n * 2 ^ k < d * 2 ^ 52"
    by simp_all
  then have step: "n * 2 ^ k < n * 2 ^ Suc k"
    by simp
  from step below have "d * 2 ^ 52 - n * 2 ^ Suc k < d * 2 ^ 52 - n * 2 ^ k"
    by (rule diff_less_mono2)
  then show "((Suc k, n, d), (k, n, d)) \<in> measure (\<lambda>(k, n, d). d * 2 ^ 52 - n * 2 ^ k)"
    by simp
qed

declare binade.simps [simp del]

definition fl_quot :: "nat \<Rightarrow> nat \<Rightarrow> real" where
  "fl_quot n d = (let k = binade 0 n d in real (round_half_even (n * 2 ^ k) d) / 2 ^ k)"

text \<open>
  The quotient of two parsed integers: \<open>NaN\<close> when an operand is \<open>NaN\<close> or for
  \<open>0 / 0\<close>, \<open>Infinity\<close> for a positive integer over zero.
\<close>

fun js_div :: "nat option \<Rightarrow> nat option \<Rightarrow> js_number" where
  "js_div (Some n) (Some d) =
     (if d = 0 then (if n = 0 then NaN else Infinity) else Num (fl_quot n d))"
| "js_div _ _ = NaN"

subsection \<open>The digest\<close>

text \<open>
  \<open>crypto.createHash('sha1')\<close>, two \<open>update\<close> calls and \<open>digest('hex')\<close>. The digest
  function \<open>D\<close> maps the bytes fed to the hash, in order, to the digest text. Node's
  SHA-1 returns 40 lowercase hexadecimal characters.
\<close>

type_synonym digest_fn = "string \<Rightarrow> string"

datatype crypto_call = CreateHash string | Update string | Digest string

type_synonym crypto_log = "crypto_call list"

definition hash :: "digest_fn \<Rightarrow> string \<Rightarrow> string \<Rightarrow> crypto_log \<Rightarrow> string \<times> crypto_log" where
  "hash D uid key lg =
     (D (uid @ key), lg @ [CreateHash ''sha1'', Update uid, Update key, Digest ''hex''])"

definition is_lower_hex :: "char \<Rightarrow> bool" where
  "is_lower_hex c = (c \<in> set ''0123456789abcdef'')"

definition is_sha1_hex :: "string \<Rightarrow> bool" where
  "is_sha1_hex s = (length s = 40 \<and> list_all is_lower_hex s)"

text \<open>
  The stub of the module's tests: \<open>digest\<close> returns the fixed text \<open>hashResult\<close>,
  whatever was fed to the hash.
\<close>

definition hashResult_stub :: "string \<Rightarrow> digest_fn" where
  "hashResult_stub hashResult = (\<lambda>_. hashResult)"

subsection \<open>The module's constants\<close>

definition HASH_LENGTH :: "digest_fn \<Rightarrow> nat" where
  "HASH_LENGTH D = length (fst (hash D [] [] []))"

definition MAX_SAFE_INTEGER :: nat where
  "MAX_SAFE_INTEGER = 2 ^ 53 - 1"

definition MAX_SAFE_HEX :: string where
  "MAX_SAFE_HEX = toString16 MAX_SAFE_INTEGER"

definition MAX_SAFE_HEX_LENGTH :: int where
  "MAX_SAFE_HEX_LENGTH = int (length MAX_SAFE_HEX) - indexOf MAX_SAFE_HEX CHR ''f''"

definition COHORT_DIVISOR :: "nat option" where
  "COHORT_DIVISOR = parseInt16 (replicate (nat MAX_SAFE_HEX_LENGTH) CHR ''f'')"

subsection \<open>The sampler\<close>

text \<open>The hexadecimal window of a digest that \<open>isSampledUser\<close> reads, and the cohort value.\<close>

definition cohort_window :: "digest_fn \<Rightarrow> string \<Rightarrow> string" where
  "cohort_window D h = substr (int (HASH_LENGTH D) - MAX_SAFE_HEX_LENGTH) h"

definition cohort :: "digest_fn \<Rightarrow> string \<Rightarrow> js_number" where
  "cohort D h = js_div (parseInt16 (cohort_window D h)) COHORT_DIVISOR"

definition uid_text :: "uid \<Rightarrow> string" where
  "uid_text u = (case u of Buf b \<Rightarrow> toString_hex b | Str s \<Rightarrow> s)"

definition isSampledUser ::
  "digest_fn \<Rightarrow> real \<Rightarrow> uid \<Rightarrow> string \<Rightarrow> crypto_log \<Rightarrow> bool \<times> crypto_log" where
  "isSampledUser D sampleRate u key lg =
     (if sampleRate = 1 then (True, lg)
      else if sampleRate = 0 then (False, lg)
      else (let (h, lg') = hash D (uid_text u) key lg
            in (js_lt (cohort D h) sampleRate, lg')))"

subsection \<open>Configuration and request\<close>

text \<open>
  A regular expression is used through \<open>test\<close> only: a predicate on the email
  address. The configuration is read once and never written. The module guards two
  fields against absence, \<open>signinUnblock.forcedEmailAddresses\<close> and
  \<open>securityHistory.ipProfiling\<close>; they are options, \<open>None\<close> for \<open>undefined\<close>. The
  specification also counts \<open>signinUnblock.allowedEmailAddresses\<close> and
  \<open>lastAccessTimeUpdates.enabledEmailAddresses\<close> as optional, so they are options too;
  the module calls \<open>test\<close> on them unguarded, which raises a \<open>TypeError\<close> on
  \<open>undefined\<close>.
\<close>

type_synonym regexp = "string \<Rightarrow> bool"

definition test :: "regexp option \<Rightarrow> string \<Rightarrow> js_error + bool" where
  "test re email = (case re of None \<Rightarrow> Inl TypeError | Some p \<Rightarrow> Inr (p email))"

record lastAccessTimeUpdates_config =
  lat_enabled :: bool
  lat_sampleRate :: real
  lat_enabledEmailAddresses :: "regexp option"

record signinConfirmation_config =
  sc_enabled :: bool
  sc_sample_rate :: real
  sc_forcedEmailAddresses :: regexp
  sc_supportedClients :: "string list"

record signinUnblock_config =
  su_enabled :: bool
  su_sampleRate :: real
  su_forcedEmailAddresses :: "regexp option"
  su_allowedEmailAddresses :: "regexp option"
  su_supportedClients :: "string list"

record ipProfiling_config =
  ip_enabled :: bool

record securityHistory_config =
  sh_enabled :: bool
  sh_ipProfiling :: "ipProfiling_config option"

record config =
  lastAccessTimeUpdates :: lastAccessTimeUpdates_config
  signinConfirmation :: signinConfirmation_config
  signinUnblock :: signinUnblock_config
  securityHistory :: securityHistory_config

record request_app =
  isSuspiciousRequest :: bool

record request_metricsContext =
  mc_context :: "string option"

record request_payload =
  metricsContext :: "request_metricsContext option"

record request =
  app :: request_app
  payload :: "request_payload option"

text \<open>
  \<open>request.payload && request.payload.metricsContext && request.payload.metricsContext.context\<close>:
  a string, or \<open>None\<close> when a link of the chain is missing.
\<close>

definition request_context :: "request \<Rightarrow> string option" where
  "request_context r =
     (case payload r of None \<Rightarrow> None
      | Some p \<Rightarrow> (case metricsContext p of None \<Rightarrow> None | Some m \<Rightarrow> mc_context m))"

text \<open>\<open>supportedClients.indexOf(context) === -1\<close>; a missing context equals no string.\<close>

definition unsupported_client :: "string list \<Rightarrow> string option \<Rightarrow> bool" where
  "unsupported_client supportedClients c = (indexOf (map Some supportedClients) c = -1)"

subsection \<open>The gates\<close>

definition isLastAccessTimeEnabledForUser ::
  "digest_fn \<Rightarrow> config \<Rightarrow> uid \<Rightarrow> string \<Rightarrow> crypto_log \<Rightarrow> (js_error + bool) \<times> crypto_log" where
  "isLastAccessTimeEnabledForUser D cfg u email lg =
     (let c = lastAccessTimeUpdates cfg in
      if \<not> lat_enabled c then (Inr False, lg)
      else (let (sampled, lg') = isSampledUser D (lat_sampleRate c) u ''lastAccessTimeUpdates'' lg
            in if sampled then (Inr True, lg')
               else (test (lat_enabledEmailAddresses c) email, lg')))"

definition isSigninConfirmationEnabledForUser ::
  "digest_fn \<Rightarrow> config \<Rightarrow> uid \<Rightarrow> string \<Rightarrow> request \<Rightarrow> crypto_log \<Rightarrow> bool \<times> crypto_log" where
  "isSigninConfirmationEnabledForUser D cfg u email r lg =
     (let c = signinConfirmation cfg in
      if \<not> sc_enabled c then (False, lg)
      else if isSuspiciousRequest (app r) then (True, lg)
      else if sc_forcedEmailAddresses c email then (True, lg)
      else if unsupported_client (sc_supportedClients c) (request_context r) then (False, lg)
      else isSampledUser D (sc_sample_rate c) u ''signinConfirmation'' lg)"

definition isSigninUnblockEnabledForUser ::
  "digest_fn \<Rightarrow> config \<Rightarrow> uid \<Rightarrow> string \<Rightarrow> request \<Rightarrow> crypto_log \<Rightarrow> (js_error + bool) \<times> crypto_log" where
  "isSigninUnblockEnabledForUser D cfg u email r lg =
     (let c = signinUnblock cfg in
      if \<not> su_enabled c then (Inr False, lg)
      else if (case su_forcedEmailAddresses c of None \<Rightarrow> False | Some p \<Rightarrow> p email)
        then (Inr True, lg)
      else (case test (su_allowedEmailAddresses c) email of
              Inl e \<Rightarrow> (Inl e, lg)
            | Inr True \<Rightarrow> (Inr True, lg)
            | Inr False \<Rightarrow>
                if unsupported_client (su_supportedClients c) (request_context r)
                then (Inr False, lg)
                else (let (sampled, lg') = isSampledUser D (su_sampleRate c) u ''signinUnblock'' lg
                      in (Inr sampled, lg'))))"

text \<open>
  \<open>securityHistory.enabled && securityHistory.ipProfiling && securityHistory.ipProfiling.enabled\<close>
  is \<open>undefined\<close> when history is enabled and has no \<open>ipProfiling\<close> object.
\<close>

definition ipProfilingEnabled :: "securityHistory_config \<Rightarrow> js_value" where
  "ipProfilingEnabled sh =
     (if \<not> sh_enabled sh then JBool False
      else (case sh_ipProfiling sh of None \<Rightarrow> JUndefined | Some ip \<Rightarrow> JBool (ip_enabled ip)))"

definition canBypassSiginConfirmation :: "config \<Rightarrow> string \<Rightarrow> bool \<Rightarrow> string \<Rightarrow> js_value" where
  "canBypassSiginConfirmation cfg email verified recency =
     (let sc = signinConfirmation cfg in
      if sc_enabled sc \<and> sc_forcedEmailAddresses sc email then JBool False
      else (let ipe = ipProfilingEnabled (securityHistory cfg) in
            if \<not> truthy ipe then ipe
            else if \<not> verified then JBool False
            else JBool (recency = ''day'')))"

subsection \<open>Values of the module's tests\<close>

text \<open>
  The digests that the tests let the stub return: all \<open>f\<close>, and two whose last 13
  digits are about \<open>0.04\<close> and \<open>0.02\<close> of \<open>0xfffffffffffff\<close>.
\<close>

definition hashResult_f :: string where
  "hashResult_f = ''ffffffffffffffffffffffffffffffffffffffff''"

definition hashResult_004 :: string where
  "hashResult_004 = ''0000000000000000000000000000a3d70a3d70a6''"

definition hashResult_002 :: string where
  "hashResult_002 = ''000000000000000000000000000051eb851eb852''"

text \<open>
  The sample rates of the tests: the JavaScript numbers that the source writes
  \<open>0.01\<close> to \<open>0.05\<close>, each an integer below \<open>2^53\<close> over a power of two.
\<close>

definition rate_001 :: real where
  "rate_001 = 5764607523034235 / 576460752303423488"

definition rate_002 :: real where
  "rate_002 = 5764607523034235 / 288230376151711744"

definition rate_003 :: real where
  "rate_003 = 1080863910568919 / 36028797018963968"

definition rate_004 :: real where
  "rate_004 = 5764607523034235 / 144115188075855872"

definition rate_005 :: real where
  "rate_005 = 3602879701896397 / 72057594037927936"

text \<open>
  The patterns of the tests have the form \<open>/.+SUFFIX$/\<close>: the address ends with the
  suffix, and the character before the suffix is not a line terminator. The
  configuration and the request follow those of the tests, with every feature enabled.
\<close>

definition re_any_then :: "string \<Rightarrow> regexp" where
  "re_any_then sfx email =
     (length sfx < length email
      \<and> drop (length email - length sfx) email = sfx
      \<and> email ! (length email - length sfx - 1) \<notin> set [CHR 0x0A, CHR 0x0D])"

definition test_config :: config where
  "test_config =
     \<lparr>lastAccessTimeUpdates =
        \<lparr>lat_enabled = True, lat_sampleRate = rate_003,
         lat_enabledEmailAddresses = Some (re_any_then ''@mozilla.org'')\<rparr>,
      signinConfirmation =
        \<lparr>sc_enabled = True, sc_sample_rate = rate_003,
         sc_forcedEmailAddresses = re_any_then ''@mozilla.org'',
         sc_supportedClients = [''wibble'', ''iframe'']\<rparr>,
      signinUnblock =
        \<lparr>su_enabled = True, su_sampleRate = rate_003,
         su_forcedEmailAddresses = None,
         su_allowedEmailAddresses = Some (re_any_then ''@notmozilla.com''),
         su_supportedClients = [''wibble'', ''iframe'']\<rparr>,
      securityHistory =
        \<lparr>sh_enabled = True, sh_ipProfiling = Some \<lparr>ip_enabled = True\<rparr>\<rparr>\<rparr>"

definition test_request :: "bool \<Rightarrow> string \<Rightarrow> request" where
  "test_request suspicious ctx =
     \<lparr>app = \<lparr>isSuspiciousRequest = suspicious\<rparr>,
      payload = Some \<lparr>metricsContext = Some \<lparr>mc_context = Some ctx\<rparr>\<rparr>\<rparr>"

section \<open>Rounding of the quotient\<close>

lemma binade_scaled: "0 < n \<Longrightarrow> d * 2 ^ 52 \<le> n * 2 ^ binade k n d"
proof (induction k n d rule: binade.induct)
  case (1 k n d)
  show ?case
  proof (cases "d * 2 ^ 52 \<le> n * 2 ^ k")
    case True
    then show ?thesis by (subst binade.simps) simp
  next
    case False
    with "1.prems" have "d * 2 ^ 52 \<le> n * 2 ^ binade (Suc k) n d"
      by (intro "1.IH") simp_all
    with False "1.prems" show ?thesis by (subst binade.simps) simp
  qed
qed

lemma binade_least: "binade k n d = Suc j \<Longrightarrow> k \<le> j \<Longrightarrow> n * 2 ^ j < d * 2 ^ 52"
proof (induction k n d rule: binade.induct)
  case (1 k n d)
  from "1.prems" have not_yet: "\<not> (n = 0 \<or> d * 2 ^ 52 \<le> n * 2 ^ k)"
    by (subst (asm) binade.simps) (auto split: if_splits)
  then have next_k: "binade (Suc k) n d = Suc j"
    using "1.prems"(1) by (subst (asm) binade.simps) simp
  show ?case
  proof (cases "Suc k \<le> j")
    case True
    with not_yet next_k show ?thesis by (intro "1.IH")
  next
    case False
    with "1.prems"(2) have "j = k" by simp
    with not_yet show ?thesis by simp
  qed
qed

lemma round_half_even_ge:
  assumes "c * b \<le> a" and "0 < b"
  shows "c \<le> round_half_even a b"
proof -
  have "c \<le> a div b"
    using assms by (metis div_le_mono nonzero_mult_div_cancel_right less_numeral_extra(3))
  then show ?thesis by (simp add: round_half_even_def Let_def)
qed

lemma round_half_even_le:
  assumes "0 < b" and "a \<le> c * b"
  shows "round_half_even a b \<le> c"
proof -
  have q: "a div b \<le> c"
    using assms by (metis div_le_mono nonzero_mult_div_cancel_right less_numeral_extra(3))
  show ?thesis
  proof (cases "a mod b = 0")
    case True
    with q assms show ?thesis by (simp add: round_half_even_def Let_def)
  next
    case False
    have "a div b \<noteq> c"
    proof
      assume "a div b = c"
      then have "a = c * b + a mod b" by (metis div_mult_mod_eq)
      with False assms show False by simp
    qed
    with q have "a div b + 1 \<le> c" by simp
    with q show ?thesis by (simp add: round_half_even_def Let_def)
  qed
qed

lemma round_half_even_error:
  assumes "0 < b"
  shows "\<bar>real (round_half_even a b) - real a / real b\<bar> \<le> 1 / 2"
proof -
  define q r where "q = a div b" and "r = a mod b"
  have a: "real a = real q * real b + real r"
    unfolding q_def r_def by (metis div_mult_mod_eq of_nat_add of_nat_mult)
  have r: "r < b" unfolding r_def using assms by simp
  have quot: "real a / real b = real q + real r / real b"
    using assms by (simp add: a field_simps)
  consider "2 * r < b" | "b < 2 * r" | "2 * r = b" by linarith
  then show ?thesis
  proof cases
    case 1
    then have "round_half_even a b = q" by (simp add: round_half_even_def Let_def q_def r_def)
    moreover from 1 assms have "real r / real b < 1 / 2" by (simp add: field_simps)
    ultimately show ?thesis using quot by simp
  next
    case 2
    then have "round_half_even a b = q + 1" by (simp add: round_half_even_def Let_def q_def r_def)
    moreover from 2 assms have "1 / 2 < real r / real b" by (simp add: field_simps)
    moreover from r assms have "real r / real b < 1" by simp
    ultimately show ?thesis using quot by simp
  next
    case 3
    then have "round_half_even a b = q \<or> round_half_even a b = q + 1"
      by (simp add: round_half_even_def Let_def q_def r_def)
    moreover from 3 assms have "real r / real b = 1 / 2" by (simp add: field_simps)
    ultimately show ?thesis using quot by auto
  qed
qed

lemma fl_quot_nonneg: "0 \<le> fl_quot n d"
  by (simp add: fl_quot_def Let_def)

lemma fl_quot_zero: "fl_quot 0 d = 0"
  by (simp add: fl_quot_def Let_def round_half_even_def)

lemma fl_quot_le_1:
  assumes "0 < d" and "n \<le> d"
  shows "fl_quot n d \<le> 1"
proof -
  define k where "k = binade 0 n d"
  from assms have "n * 2 ^ k \<le> 2 ^ k * d" by simp
  with assms have "round_half_even (n * 2 ^ k) d \<le> 2 ^ k" by (intro round_half_even_le)
  then have "real (round_half_even (n * 2 ^ k) d) \<le> 2 ^ k"
    by (metis of_nat_le_iff of_nat_numeral of_nat_power)
  then show ?thesis by (simp add: fl_quot_def Let_def k_def[symmetric] field_simps)
qed

lemma fl_quot_self:
  assumes "0 < d"
  shows "fl_quot d d = 1"
proof -
  define k where "k = binade 0 d d"
  from assms have "round_half_even (d * 2 ^ k) d = 2 ^ k"
    by (simp add: round_half_even_def Let_def)
  then show ?thesis by (simp add: fl_quot_def Let_def k_def[symmetric])
qed

lemma fl_quot_lt_1:
  assumes "n < d" and "d \<le> 2 ^ 52"
  shows "fl_quot n d < 1"
proof (cases "n = 0")
  case True
  then show ?thesis by (simp add: fl_quot_zero)
next
  case False
  define k where "k = binade 0 n d"
  from False have scaled: "d * 2 ^ 52 \<le> n * 2 ^ k"
    unfolding k_def by (intro binade_scaled) simp
  have "n * 2 ^ k < d * 2 ^ k" using assms by simp
  with scaled have "d * 2 ^ 52 < d * 2 ^ k" by linarith
  then have "(2::nat) ^ 52 < 2 ^ k" by simp
  with assms have dk: "d < 2 ^ k" by linarith
  have "n + 1 \<le> d" using assms by simp
  then have "(n + 1) * 2 ^ k \<le> d * 2 ^ k" by (rule mult_le_mono1)
  then have "n * 2 ^ k + d \<le> d * 2 ^ k" using dk by (simp add: algebra_simps)
  then have "n * 2 ^ k \<le> (2 ^ k - 1) * d" by (simp add: algebra_simps)
  with assms have "round_half_even (n * 2 ^ k) d \<le> 2 ^ k - 1"
    by (intro round_half_even_le) simp_all
  then have "round_half_even (n * 2 ^ k) d < 2 ^ k"
    by (metis less_Suc_eq_le One_nat_def Suc_diff_1 zero_less_numeral zero_less_power)
  then have "real (round_half_even (n * 2 ^ k) d) < 2 ^ k"
    by (metis of_nat_less_iff of_nat_numeral of_nat_power)
  then show ?thesis by (simp add: fl_quot_def Let_def k_def[symmetric] field_simps)
qed

lemma fl_quot_error:
  assumes "0 < n" and "0 < d"
  shows "\<bar>fl_quot n d - real n / real d\<bar> \<le> (real n / real d) / 2 ^ 53"
proof -
  define k where "k = binade 0 n d"
  define m where "m = round_half_even (n * 2 ^ k) d"
  have scaled: "d * 2 ^ 52 \<le> n * 2 ^ k"
    unfolding k_def using assms by (intro binade_scaled)
  have "\<bar>real m - real (n * 2 ^ k) / real d\<bar> \<le> 1 / 2"
    unfolding m_def using assms by (intro round_half_even_error)
  then have "\<bar>real m - real n / real d * 2 ^ k\<bar> \<le> 1 / 2" by simp
  then have "\<bar>real m - real n / real d * 2 ^ k\<bar> / 2 ^ k \<le> (1 / 2) / 2 ^ k"
    by (rule divide_right_mono) simp
  moreover have "\<bar>real m - real n / real d * 2 ^ k\<bar> / 2 ^ k = \<bar>real m / 2 ^ k - real n / real d\<bar>"
  proof -
    have "\<bar>real m - real n / real d * 2 ^ k\<bar> / 2 ^ k = \<bar>(real m - real n / real d * 2 ^ k) / 2 ^ k\<bar>"
      by simp
    also have "(real m - real n / real d * 2 ^ k) / 2 ^ k = real m / 2 ^ k - real n / real d"
      by (simp add: diff_divide_distrib)
    finally show ?thesis .
  qed
  ultimately have err: "\<bar>real m / 2 ^ k - real n / real d\<bar> \<le> 1 / 2 ^ (k + 1)"
    by simp
  from scaled have "real (d * 2 ^ 52) \<le> real (n * 2 ^ k)" by (rule of_nat_mono)
  then have "real d * 2 ^ 52 \<le> real n * 2 ^ k" by simp
  then have "2 ^ 52 / 2 ^ k \<le> real n / real d"
    using assms by (simp add: field_simps)
  then have "(2 ^ 52 / 2 ^ k) / 2 ^ 53 \<le> (real n / real d) / 2 ^ 53"
    by (rule divide_right_mono) simp
  moreover have "(2 ^ 52 / 2 ^ k) / 2 ^ 53 = 1 / (2::real) ^ (k + 1)" by simp
  ultimately have "1 / 2 ^ (k + 1) \<le> (real n / real d) / 2 ^ 53" by simp
  with err show ?thesis by (simp add: fl_quot_def Let_def k_def[symmetric] m_def[symmetric])
qed

text \<open>
  For operands whose quotient is below \<open>2^53\<close>, \<open>fl_quot\<close> is a binary64 number: a
  significand of 53 bits over a power of two. With \<open>fl_quot_error\<close>, it is one nearest
  to the exact quotient.
\<close>

lemma fl_quot_binary64:
  assumes "0 < n" and "0 < d" and "n \<le> d * 2 ^ 53"
  shows "\<exists>m k. fl_quot n d = real m / 2 ^ k \<and> 2 ^ 52 \<le> m \<and> m \<le> 2 ^ 53"
proof -
  define k where "k = binade 0 n d"
  define m where "m = round_half_even (n * 2 ^ k) d"
  have scaled: "d * 2 ^ 52 \<le> n * 2 ^ k"
    unfolding k_def using assms(1) by (rule binade_scaled)
  then have "2 ^ 52 * d \<le> n * 2 ^ k" by (simp add: mult.commute)
  then have lower: "2 ^ 52 \<le> m"
    unfolding m_def using assms(2) by (rule round_half_even_ge)
  have "n * 2 ^ k \<le> 2 ^ 53 * d"
  proof (cases k)
    case 0
    with assms(3) show ?thesis by (simp add: mult.commute)
  next
    case (Suc j)
    then have "binade 0 n d = Suc j" by (simp add: k_def)
    then have "n * 2 ^ j < d * 2 ^ 52" by (rule binade_least) simp
    then have "2 * (n * 2 ^ j) \<le> 2 * (d * 2 ^ 52)" by simp
    with Suc show ?thesis by (simp add: mult.commute)
  qed
  with assms(2) have upper: "m \<le> 2 ^ 53"
    unfolding m_def by (intro round_half_even_le)
  have "fl_quot n d = real m / 2 ^ k"
    by (simp add: fl_quot_def Let_def k_def m_def)
  with lower upper show ?thesis by blast
qed

section \<open>Hexadecimal text\<close>

lemma lower_hex_digit:
  assumes "is_lower_hex c"
  shows "\<exists>v. hex_digit c = Some v \<and> v < 16 \<and> (v = 15 \<longleftrightarrow> c = CHR ''f'')"
  using assms unfolding is_lower_hex_def by (auto simp: hex_digit_def)

lemma is_lower_hex_hex_char: "is_lower_hex (hex_char n)"
  unfolding is_lower_hex_def hex_char_def by (rule nth_mem) simp

lemma lower_hex_is_hex: "is_lower_hex c \<Longrightarrow> is_hex c"
  using lower_hex_digit [of c] by (auto simp: is_hex_def)

lemma takeWhile_lower_hex: "list_all is_lower_hex s \<Longrightarrow> takeWhile is_hex s = s"
  by (induction s) (simp_all add: lower_hex_is_hex)

lemma hex_value_snoc:
  "hex_value acc (cs @ [c]) = 16 * hex_value acc cs + (case hex_digit c of Some v \<Rightarrow> v | None \<Rightarrow> 0)"
  by (induction cs arbitrary: acc) simp_all

lemma hex_value_bound: "list_all is_lower_hex cs \<Longrightarrow> hex_value 0 cs < 16 ^ length cs"
proof (induction cs rule: rev_induct)
  case Nil
  then show ?case by simp
next
  case (snoc c cs)
  then have ih: "hex_value 0 cs < 16 ^ length cs" and "is_lower_hex c" by simp_all
  then obtain v where v: "hex_digit c = Some v" "v < 16"
    using lower_hex_digit by blast
  from ih have "hex_value 0 cs + 1 \<le> 16 ^ length cs" by simp
  then have "16 * (hex_value 0 cs + 1) \<le> 16 * 16 ^ length cs" by (rule mult_le_mono2)
  with v show ?case by (simp add: hex_value_snoc)
qed

lemma top_digit:
  "(h::nat) < X \<Longrightarrow> v < 16 \<Longrightarrow> (16 * h + v + 1 = 16 * X \<longleftrightarrow> h + 1 = X \<and> v = 15)"
  by arith

lemma hex_value_max_iff:
  "list_all is_lower_hex cs \<Longrightarrow>
     (hex_value 0 cs + 1 = 16 ^ length cs \<longleftrightarrow> cs = replicate (length cs) CHR ''f'')"
proof (induction cs rule: rev_induct)
  case Nil
  then show ?case by simp
next
  case (snoc c cs)
  then have cs: "list_all is_lower_hex cs" and c: "is_lower_hex c" by simp_all
  from c obtain v where v: "hex_digit c = Some v" "v < 16" "v = 15 \<longleftrightarrow> c = CHR ''f''"
    using lower_hex_digit by blast
  have bound: "hex_value 0 cs < 16 ^ length cs" using cs by (rule hex_value_bound)
  have ih: "hex_value 0 cs + 1 = 16 ^ length cs \<longleftrightarrow> cs = replicate (length cs) CHR ''f''"
    using snoc.IH cs by simp
  have val: "hex_value 0 (cs @ [c]) = 16 * hex_value 0 cs + v"
    using v by (simp add: hex_value_snoc)
  have "16 * hex_value 0 cs + v + 1 = 16 * 16 ^ length cs
          \<longleftrightarrow> hex_value 0 cs + 1 = 16 ^ length cs \<and> v = 15"
    using bound v(2) by (rule top_digit)
  moreover have "cs @ [c] = replicate (length (cs @ [c])) CHR ''f''
          \<longleftrightarrow> cs = replicate (length cs) CHR ''f'' \<and> c = CHR ''f''"
  proof -
    have "replicate (length (cs @ [c])) CHR ''f'' = replicate (length cs) CHR ''f'' @ [CHR ''f'']"
      by (simp add: replicate_append_same)
    then show ?thesis by (simp only: append1_eq_conv)
  qed
  ultimately show ?case using ih v(3) val by simp
qed

section \<open>The constants and the window of the digest\<close>

lemma MAX_SAFE_HEX_eq: "MAX_SAFE_HEX = ''1fffffffffffff''"
  by (simp add: MAX_SAFE_HEX_def MAX_SAFE_INTEGER_def toString16.simps hex_char_def)

lemma MAX_SAFE_HEX_LENGTH_eq: "MAX_SAFE_HEX_LENGTH = 13"
  by (simp add: MAX_SAFE_HEX_LENGTH_def MAX_SAFE_HEX_eq)

lemma COHORT_DIVISOR_eq: "COHORT_DIVISOR = Some 4503599627370495"
proof -
  have "replicate (nat MAX_SAFE_HEX_LENGTH) CHR ''f'' = ''fffffffffffff''"
    by (simp add: MAX_SAFE_HEX_LENGTH_eq numeral_eq_Suc)
  then show ?thesis
    by (simp add: COHORT_DIVISOR_def parseInt16_def is_hex_def hex_digit_def)
qed

lemma HASH_LENGTH_sha1: "is_sha1_hex (D []) \<Longrightarrow> HASH_LENGTH D = 40"
  by (simp add: HASH_LENGTH_def hash_def is_sha1_hex_def)

lemma cohort_window_sha1:
  assumes "is_sha1_hex (D [])"
  shows "cohort_window D h = drop 27 h"
  using assms by (simp add: cohort_window_def HASH_LENGTH_sha1 MAX_SAFE_HEX_LENGTH_eq substr_def)

lemma parseInt16_lower_hex:
  assumes "list_all is_lower_hex w" and "w \<noteq> []"
  shows "parseInt16 w = Some (hex_value 0 w)"
  using assms by (simp add: parseInt16_def takeWhile_lower_hex)

lemma sha1_window:
  assumes "is_sha1_hex h"
  shows "length (drop 27 h) = 13" and "list_all is_lower_hex (drop 27 h)" and "drop 27 h \<noteq> []"
proof -
  from assms have len: "length h = 40" and hex: "list_all is_lower_hex h"
    by (simp_all add: is_sha1_hex_def)
  from len show "length (drop 27 h) = 13" by simp
  then show "drop 27 h \<noteq> []" by auto
  from hex show "list_all is_lower_hex (drop 27 h)"
    by (metis append_take_drop_id list_all_append)
qed

lemma cohort_sha1:
  assumes "is_sha1_hex (D [])" and "is_sha1_hex h"
  shows "cohort D h = Num (fl_quot (hex_value 0 (drop 27 h)) 4503599627370495)"
proof -
  have "parseInt16 (drop 27 h) = Some (hex_value 0 (drop 27 h))"
    using assms(2) by (intro parseInt16_lower_hex sha1_window)
  moreover have "cohort_window D h = drop 27 h"
    using assms(1) by (rule cohort_window_sha1)
  ultimately show ?thesis
    by (simp add: cohort_def COHORT_DIVISOR_eq)
qed

lemma window_value_bound:
  assumes "is_sha1_hex h"
  shows "hex_value 0 (drop 27 h) \<le> 4503599627370495"
proof -
  have len: "length (drop 27 h) = 13"
    using assms by (rule sha1_window)
  have "hex_value 0 (drop 27 h) < 16 ^ length (drop 27 h)"
    using assms by (intro hex_value_bound sha1_window)
  then have "hex_value 0 (drop 27 h) < 16 ^ 13"
    unfolding len .
  then show ?thesis by simp
qed

lemma window_value_max_iff:
  assumes "is_sha1_hex h"
  shows "hex_value 0 (drop 27 h) = 4503599627370495 \<longleftrightarrow> drop 27 h = replicate 13 CHR ''f''"
proof -
  have len: "length (drop 27 h) = 13"
    using assms by (rule sha1_window)
  have "hex_value 0 (drop 27 h) + 1 = 16 ^ length (drop 27 h)
          \<longleftrightarrow> drop 27 h = replicate (length (drop 27 h)) CHR ''f''"
    using assms by (intro hex_value_max_iff sha1_window)
  then have "hex_value 0 (drop 27 h) + 1 = 16 ^ 13 \<longleftrightarrow> drop 27 h = replicate 13 CHR ''f''"
    unfolding len .
  moreover have "hex_value 0 (drop 27 h) + 1 = 16 ^ 13 \<longleftrightarrow> hex_value 0 (drop 27 h) = 4503599627370495"
    by auto
  ultimately show ?thesis by simp
qed

lemma isSampledUser_general:
  assumes "r \<noteq> 1" and "r \<noteq> 0"
  shows "isSampledUser D r u key lg =
           (js_lt (cohort D (D (uid_text u @ key))) r,
            lg @ [CreateHash ''sha1'', Update (uid_text u), Update key, Digest ''hex''])"
  using assms by (simp add: isSampledUser_def hash_def)

lemma fl_quot_one_iff:
  assumes "n \<le> d" and "0 < d" and "d \<le> 2 ^ 52"
  shows "fl_quot n d = 1 \<longleftrightarrow> n = d"
proof
  assume "fl_quot n d = 1"
  show "n = d"
  proof (rule ccontr)
    assume "n \<noteq> d"
    with assms have "n < d" by simp
    with assms have "fl_quot n d < 1" by (intro fl_quot_lt_1)
    with \<open>fl_quot n d = 1\<close> show False by simp
  qed
next
  assume "n = d"
  with assms show "fl_quot n d = 1" by (simp add: fl_quot_self)
qed


section \<open>The digests of the tests\<close>

lemma sha1_hashResult_f: "is_sha1_hex hashResult_f"
  by (simp add: is_sha1_hex_def is_lower_hex_def hashResult_f_def)

lemma sha1_hashResult_004: "is_sha1_hex hashResult_004"
  by (simp add: is_sha1_hex_def is_lower_hex_def hashResult_004_def)

lemma sha1_hashResult_002: "is_sha1_hex hashResult_002"
  by (simp add: is_sha1_hex_def is_lower_hex_def hashResult_002_def)

lemma window_hashResult_f: "hex_value 0 (drop 27 hashResult_f) = 4503599627370495"
  by (simp add: hashResult_f_def hex_digit_def)

lemma window_hashResult_004: "hex_value 0 (drop 27 hashResult_004) = 180143985094822"
  by (simp add: hashResult_004_def hex_digit_def)

lemma window_hashResult_002: "hex_value 0 (drop 27 hashResult_002) = 90071992547410"
  by (simp add: hashResult_002_def hex_digit_def)

lemma cohort_hashResult_f: "cohort (hashResult_stub hashResult_f) hashResult_f = Num 1"
proof -
  have "cohort (hashResult_stub hashResult_f) hashResult_f
          = Num (fl_quot (hex_value 0 (drop 27 hashResult_f)) 4503599627370495)"
    by (rule cohort_sha1) (simp_all add: hashResult_stub_def sha1_hashResult_f)
  then show ?thesis by (simp add: window_hashResult_f fl_quot_self)
qed

lemma binade_004: "binade 0 180143985094822 4503599627370495 = 57"
  by (simp add: binade.simps)

lemma fl_quot_004: "fl_quot 180143985094822 4503599627370495 = 5764607523034305 / 144115188075855872"
  by (simp add: fl_quot_def binade_004 round_half_even_def Let_def)

lemma binade_002: "binade 0 90071992547410 4503599627370495 = 58"
  by (simp add: binade.simps)

lemma fl_quot_002: "fl_quot 90071992547410 4503599627370495 = 5764607523034241 / 288230376151711744"
  by (simp add: fl_quot_def binade_002 round_half_even_def Let_def)

lemma cohort_hashResult_004:
  "cohort (hashResult_stub hashResult_004) hashResult_004 = Num (5764607523034305 / 144115188075855872)"
proof -
  have "cohort (hashResult_stub hashResult_004) hashResult_004
          = Num (fl_quot (hex_value 0 (drop 27 hashResult_004)) 4503599627370495)"
    by (rule cohort_sha1) (simp_all add: hashResult_stub_def sha1_hashResult_004)
  then show ?thesis by (simp add: window_hashResult_004 fl_quot_004)
qed

section \<open>The sampler\<close>

text \<open>
  Claim C1, as amended. For a sample rate strictly between 0 and 1 and SHA-1 digests of
  40 lowercase hexadecimal characters, \<open>isSampledUser\<close> reads exactly the last 13
  characters of the digest of the uid followed by the key, parses them as an unsigned
  integer \<open>n\<close> and divides by \<open>0xfffffffffffff\<close>. The cohort value is the quotient
  rounded to a JavaScript number, within \<open>2^-53\<close> of it in relative terms, and lies in
  the closed interval from 0 to 1: it is 1 exactly when the 13 characters are all
  \<open>f\<close>. The decision is \<open>cohort < sampleRate\<close>, after one digest computation.
\<close>

theorem isSampledUser_cohort_unit_interval:
  assumes "is_sha1_hex (D [])" and "is_sha1_hex (D (uid_text u @ key))"
    and "0 < r" and "r < 1"
  shows "let h = D (uid_text u @ key); w = drop 27 h; n = hex_value 0 w;
             c = fl_quot n 0xfffffffffffff
         in length h = 40 \<and> length w = 13 \<and> cohort_window D h = w
            \<and> parseInt16 w = Some n \<and> COHORT_DIVISOR = Some 0xfffffffffffff
            \<and> cohort D h = Num c
            \<and> \<bar>c - real n / 0xfffffffffffff\<bar> \<le> (real n / 0xfffffffffffff) / 2 ^ 53
            \<and> 0 \<le> c \<and> c \<le> 1 \<and> (c = 1 \<longleftrightarrow> w = replicate 13 CHR ''f'')
            \<and> isSampledUser D r u key lg =
                (c < r, lg @ [CreateHash ''sha1'', Update (uid_text u), Update key, Digest ''hex''])"
proof -
  define h where "h = D (uid_text u @ key)"
  define w where "w = drop 27 h"
  define n where "n = hex_value 0 w"
  define c where "c = fl_quot n 0xfffffffffffff"
  have h: "is_sha1_hex h" using assms(2) by (simp add: h_def)
  have len: "length h = 40" using h by (simp add: is_sha1_hex_def)
  have w13: "length w = 13" unfolding w_def using h by (rule sha1_window)
  have win: "cohort_window D h = w" unfolding w_def using assms(1) by (rule cohort_window_sha1)
  have parse: "parseInt16 w = Some n"
    unfolding n_def w_def using h by (intro parseInt16_lower_hex sha1_window)
  have divisor: "COHORT_DIVISOR = Some 0xfffffffffffff" by (simp add: COHORT_DIVISOR_eq)
  have coh: "cohort D h = Num c"
    unfolding c_def n_def w_def using assms(1) h by (simp add: cohort_sha1)
  have nle: "n \<le> 0xfffffffffffff"
    unfolding n_def w_def using window_value_bound [OF h] by simp
  have err: "\<bar>c - real n / 0xfffffffffffff\<bar> \<le> (real n / 0xfffffffffffff) / 2 ^ 53"
  proof (cases "n = 0")
    case True
    then show ?thesis by (simp add: c_def fl_quot_zero)
  next
    case False
    then have "\<bar>fl_quot n 0xfffffffffffff - real n / real 0xfffffffffffff\<bar>
                \<le> (real n / real 0xfffffffffffff) / 2 ^ 53"
      by (intro fl_quot_error) simp_all
    then show ?thesis by (simp add: c_def)
  qed
  have c0: "0 \<le> c" unfolding c_def by (rule fl_quot_nonneg)
  have c1: "c \<le> 1" unfolding c_def using nle by (intro fl_quot_le_1) simp_all
  have "c = 1 \<longleftrightarrow> n = 0xfffffffffffff"
    unfolding c_def using nle by (intro fl_quot_one_iff) simp_all
  also have "\<dots> \<longleftrightarrow> w = replicate 13 CHR ''f''"
    unfolding n_def w_def using window_value_max_iff [OF h] by simp
  finally have top: "c = 1 \<longleftrightarrow> w = replicate 13 CHR ''f''" .
  have "isSampledUser D r u key lg =
          (js_lt (cohort D h) r,
           lg @ [CreateHash ''sha1'', Update (uid_text u), Update key, Digest ''hex''])"
    unfolding h_def using assms(3,4) by (intro isSampledUser_general) simp_all
  then have dec: "isSampledUser D r u key lg =
          (c < r, lg @ [CreateHash ''sha1'', Update (uid_text u), Update key, Digest ''hex''])"
    by (simp add: coh)
  from len w13 win parse divisor coh err c0 c1 top dec show ?thesis
    unfolding Let_def h_def [symmetric] w_def [symmetric] n_def [symmetric] c_def [symmetric]
    by (intro conjI)
qed

theorem isSampledUser_cohort_unit_interval_witness:
  "is_sha1_hex (hashResult_stub hashResult_004 [])
   \<and> is_sha1_hex (hashResult_stub hashResult_004 (uid_text (Buf [0xff, 0xff]) @ ''foo''))
   \<and> 0 < rate_005 \<and> rate_005 < 1
   \<and> (let h = hashResult_stub hashResult_004 (uid_text (Buf [0xff, 0xff]) @ ''foo'');
            w = drop 27 h; n = hex_value 0 w; c = fl_quot n 0xfffffffffffff
        in length h = 40 \<and> length w = 13 \<and> cohort_window (hashResult_stub hashResult_004) h = w
           \<and> parseInt16 w = Some n \<and> COHORT_DIVISOR = Some 0xfffffffffffff
           \<and> cohort (hashResult_stub hashResult_004) h = Num c
           \<and> \<bar>c - real n / 0xfffffffffffff\<bar> \<le> (real n / 0xfffffffffffff) / 2 ^ 53
           \<and> 0 \<le> c \<and> c \<le> 1 \<and> (c = 1 \<longleftrightarrow> w = replicate 13 CHR ''f'')
           \<and> isSampledUser (hashResult_stub hashResult_004) rate_005 (Buf [0xff, 0xff]) ''foo'' [] =
               (c < rate_005,
                [] @ [CreateHash ''sha1'', Update (uid_text (Buf [0xff, 0xff])), Update ''foo'',
                      Digest ''hex'']))"
proof -
  have a: "is_sha1_hex (hashResult_stub hashResult_004 [])"
    by (simp add: hashResult_stub_def sha1_hashResult_004)
  have b: "is_sha1_hex (hashResult_stub hashResult_004 (uid_text (Buf [0xff, 0xff]) @ ''foo''))"
    by (simp add: hashResult_stub_def sha1_hashResult_004)
  have c: "0 < rate_005" and d: "rate_005 < 1"
    by (simp_all add: rate_005_def)
  from a b c d isSampledUser_cohort_unit_interval [OF a b c d, of "[]"] show ?thesis
    by (intro conjI)
qed

text \<open>
  The half-open interval fails at the digest of all \<open>f\<close>, which the tests use: the
  window is \<open>fffffffffffff\<close>, the divisor itself, and the cohort value is 1.
\<close>

theorem cohort_half_open_counterexample:
  "is_sha1_hex (hashResult_stub hashResult_f [])
   \<and> is_sha1_hex (hashResult_stub hashResult_f (uid_text (Str ''ab'') @ ''foo''))
   \<and> 0 < rate_005 \<and> rate_005 < 1
   \<and> cohort (hashResult_stub hashResult_f)
        (hashResult_stub hashResult_f (uid_text (Str ''ab'') @ ''foo'')) = Num 1
   \<and> isSampledUser (hashResult_stub hashResult_f) rate_005 (Str ''ab'') ''foo'' [] =
        (False, [CreateHash ''sha1'', Update ''ab'', Update ''foo'', Digest ''hex''])"
proof -
  have digest: "is_sha1_hex (hashResult_stub hashResult_f x)" for x
    by (simp add: hashResult_stub_def sha1_hashResult_f)
  have rate: "0 < rate_005" "rate_005 < 1"
    by (simp_all add: rate_005_def)
  have one: "cohort (hashResult_stub hashResult_f) (hashResult_stub hashResult_f x) = Num 1" for x
    using cohort_hashResult_f by (simp add: hashResult_stub_def)
  have "isSampledUser (hashResult_stub hashResult_f) rate_005 (Str ''ab'') ''foo'' [] =
      (js_lt (cohort (hashResult_stub hashResult_f)
                (hashResult_stub hashResult_f (uid_text (Str ''ab'') @ ''foo''))) rate_005,
       [] @ [CreateHash ''sha1'', Update (uid_text (Str ''ab'')), Update ''foo'', Digest ''hex''])"
    using rate by (intro isSampledUser_general) simp_all
  then have "isSampledUser (hashResult_stub hashResult_f) rate_005 (Str ''ab'') ''foo'' [] =
      (False, [CreateHash ''sha1'', Update ''ab'', Update ''foo'', Digest ''hex''])"
    using rate by (simp add: one uid_text_def)
  with digest rate one show ?thesis
    by (intro conjI)
qed

text \<open>
  Claim C2, as amended. For every sample rate other than 1, so for every rate in the
  half-open interval from 0 to 1, and every uid and key whose cohort value is exactly
  the sample rate, \<open>isSampledUser\<close> returns false: the comparison is strict.
\<close>

theorem isSampledUser_equal_cohort_not_sampled:
  assumes "cohort D (D (uid_text u @ key)) = Num r" and "r \<noteq> 1"
  shows "fst (isSampledUser D r u key lg) = False"
proof (cases "r = 0")
  case True
  then show ?thesis by (simp add: isSampledUser_def)
next
  case False
  with assms(2) have "isSampledUser D r u key lg =
      (js_lt (cohort D (D (uid_text u @ key))) r,
       lg @ [CreateHash ''sha1'', Update (uid_text u), Update key, Digest ''hex''])"
    by (intro isSampledUser_general)
  with assms(1) show ?thesis by simp
qed

theorem isSampledUser_equal_cohort_not_sampled_witness:
  "cohort (hashResult_stub hashResult_004)
     (hashResult_stub hashResult_004 (uid_text (Str ''ab'') @ ''bar''))
     = Num (5764607523034305 / 144115188075855872)
   \<and> (5764607523034305 / 144115188075855872 :: real) \<noteq> 1
   \<and> fst (isSampledUser (hashResult_stub hashResult_004) (5764607523034305 / 144115188075855872)
        (Str ''ab'') ''bar'' []) = False"
proof -
  have a: "cohort (hashResult_stub hashResult_004)
      (hashResult_stub hashResult_004 (uid_text (Str ''ab'') @ ''bar''))
      = Num (5764607523034305 / 144115188075855872)"
    using cohort_hashResult_004 by (simp add: hashResult_stub_def)
  have b: "(5764607523034305 / 144115188075855872 :: real) \<noteq> 1"
    by simp
  from a b isSampledUser_equal_cohort_not_sampled [OF a b, of "[]"] show ?thesis
    by (intro conjI)
qed

text \<open>
  At sample rate 1 the claim as written fails: with the digest of all \<open>f\<close> the cohort
  value is 1, equal to the rate, and the fast path returns true.
\<close>

theorem isSampledUser_equal_cohort_counterexample:
  "cohort (hashResult_stub hashResult_f)
     (hashResult_stub hashResult_f (uid_text (Buf [0xff, 0xff]) @ ''foo'')) = Num 1
   \<and> isSampledUser (hashResult_stub hashResult_f) 1 (Buf [0xff, 0xff]) ''foo'' [] = (True, [])"
proof -
  have "cohort (hashResult_stub hashResult_f)
      (hashResult_stub hashResult_f (uid_text (Buf [0xff, 0xff]) @ ''foo'')) = Num 1"
    using cohort_hashResult_f by (simp add: hashResult_stub_def)
  moreover have "isSampledUser (hashResult_stub hashResult_f) 1 (Buf [0xff, 0xff]) ''foo'' [] = (True, [])"
    by (simp add: isSampledUser_def)
  ultimately show ?thesis by (rule conjI)
qed

text \<open>
  Claim C3. For every uid and key, \<open>isSampledUser\<close> returns true at sample rate 1 and
  false at sample rate 0, and in both cases the log of calls to \<open>crypto\<close> is returned
  as it was: no hash is created, fed or read.
\<close>

theorem isSampledUser_fast_paths:
  "isSampledUser D 1 u key lg = (True, lg) \<and> isSampledUser D 0 u key lg = (False, lg)"
  by (simp add: isSampledUser_def)

text \<open>
  Claim C10. For every sample rate, every buffer \<open>b\<close> and every key, \<open>isSampledUser\<close>
  gives the same decision, and makes the same calls to \<open>crypto\<close>, for \<open>b\<close> as for the
  text \<open>b.toString('hex')\<close>, which has two lowercase hexadecimal digits for each byte.
\<close>

theorem isSampledUser_buffer_hex:
  "isSampledUser D r (Buf b) key lg = isSampledUser D r (Str (toString_hex b)) key lg
   \<and> length (toString_hex b) = 2 * length b \<and> list_all is_lower_hex (toString_hex b)"
proof -
  have "isSampledUser D r (Buf b) key lg = isSampledUser D r (Str (toString_hex b)) key lg"
    by (simp add: isSampledUser_def uid_text_def)
  moreover have "length (toString_hex b) = 2 * length b"
    by (induction b) (simp_all add: toString_hex_def)
  moreover have "list_all is_lower_hex (toString_hex b)"
    by (induction b) (simp_all add: toString_hex_def is_lower_hex_hex_char)
  ultimately show ?thesis by simp
qed

section \<open>The gates\<close>

lemma indexOf_ge: "- 1 \<le> indexOf xs a"
  by (induction xs) (simp_all add: Let_def)

lemma indexOf_minus1_iff: "indexOf xs a = - 1 \<longleftrightarrow> a \<notin> set xs"
proof (induction xs)
  case Nil
  then show ?case by simp
next
  case (Cons x xs)
  have "indexOf xs a + 1 \<noteq> - 1"
    using indexOf_ge [of xs a] by simp
  with Cons show ?case by (simp add: Let_def)
qed

lemma unsupported_client_iff:
  "unsupported_client supportedClients c \<longleftrightarrow> c \<notin> Some ` set supportedClients"
  by (simp add: unsupported_client_def indexOf_minus1_iff)

lemma cohort_hashResult_002:
  "cohort (hashResult_stub hashResult_002) hashResult_002 = Num (5764607523034241 / 288230376151711744)"
proof -
  have "cohort (hashResult_stub hashResult_002) hashResult_002
          = Num (fl_quot (hex_value 0 (drop 27 hashResult_002)) 4503599627370495)"
    by (rule cohort_sha1) (simp_all add: hashResult_stub_def sha1_hashResult_002)
  then show ?thesis by (simp add: window_hashResult_002 fl_quot_002)
qed

lemma isSampledUser_hashResult_002:
  assumes "r \<noteq> 1" and "r \<noteq> 0"
  shows "isSampledUser (hashResult_stub hashResult_002) r u key lg =
           (5764607523034241 / 288230376151711744 < r,
            lg @ [CreateHash ''sha1'', Update (uid_text u), Update key, Digest ''hex''])"
proof -
  have "cohort (hashResult_stub hashResult_002) (hashResult_stub hashResult_002 (uid_text u @ key))
          = Num (5764607523034241 / 288230376151711744)"
    using cohort_hashResult_002 by (simp add: hashResult_stub_def)
  with isSampledUser_general [OF assms, of "hashResult_stub hashResult_002" u key lg]
  show ?thesis by simp
qed

lemmas rate_defs = rate_001_def rate_002_def rate_003_def rate_004_def rate_005_def

lemmas fixture_defs = test_config_def test_request_def re_any_then_def request_context_def rate_defs

lemma isSampledUser_fast_paths_aux:
  "isSampledUser D 1 u key lg = (True, lg)" "isSampledUser D 0 u key lg = (False, lg)"
  by (simp_all add: isSampledUser_def)

text \<open>
  Claim C4. \<open>isSigninConfirmationEnabledForUser\<close> returns false when the feature is
  disabled; otherwise true when the request is suspicious; otherwise true when the
  email matches the forced pattern; otherwise false when the context of the request is
  not one of the supported clients, whatever the sample rate; otherwise the decision of
  \<open>isSampledUser\<close> with the feature's sample rate and the key \<open>signinConfirmation\<close>. In
  the four override branches the log of \<open>crypto\<close> calls is unchanged and the result
  is the same for every digest function, uid and sample rate.
\<close>

theorem isSigninConfirmationEnabledForUser_precedence:
  "let c = signinConfirmation cfg;
       res = isSigninConfirmationEnabledForUser D cfg u email r lg;
       suspicious = isSuspiciousRequest (app r);
       forced = sc_forcedEmailAddresses c email;
       supported = (request_context r \<in> Some ` set (sc_supportedClients c))
   in (\<not> sc_enabled c \<longrightarrow> res = (False, lg))
      \<and> (sc_enabled c \<and> suspicious \<longrightarrow> res = (True, lg))
      \<and> (sc_enabled c \<and> \<not> suspicious \<and> forced \<longrightarrow> res = (True, lg))
      \<and> (sc_enabled c \<and> \<not> suspicious \<and> \<not> forced \<and> \<not> supported \<longrightarrow> res = (False, lg))
      \<and> (sc_enabled c \<and> \<not> suspicious \<and> \<not> forced \<and> supported \<longrightarrow>
            res = isSampledUser D (sc_sample_rate c) u ''signinConfirmation'' lg)
      \<and> (\<not> sc_enabled c \<or> suspicious \<or> forced \<or> \<not> supported \<longrightarrow>
            (\<forall>D' u' rate'.
               isSigninConfirmationEnabledForUser D'
                 (cfg\<lparr>signinConfirmation := c\<lparr>sc_sample_rate := rate'\<rparr>\<rparr>) u' email r lg = res))"
  by (auto simp: isSigninConfirmationEnabledForUser_def Let_def unsupported_client_iff)

theorem isSigninConfirmationEnabledForUser_precedence_witness:
  "isSigninConfirmationEnabledForUser (hashResult_stub hashResult_002)
     (test_config\<lparr>signinConfirmation := (signinConfirmation test_config)\<lparr>sc_enabled := False\<rparr>\<rparr>)
     (Str ''wibble'') ''blee@mozilla.org'' (test_request True ''iframe'') [] = (False, [])
   \<and> isSigninConfirmationEnabledForUser (hashResult_stub hashResult_002) test_config
       (Str ''wibble'') ''blee@mozilla.com'' (test_request True '''') [] = (True, [])
   \<and> isSigninConfirmationEnabledForUser (hashResult_stub hashResult_002) test_config
       (Str ''wibble'') ''blee@mozilla.org'' (test_request False '''') [] = (True, [])
   \<and> isSigninConfirmationEnabledForUser (hashResult_stub hashResult_002)
       (test_config\<lparr>signinConfirmation := (signinConfirmation test_config)\<lparr>sc_sample_rate := 1\<rparr>\<rparr>)
       (Str ''wibble'') ''blee@mozilla.com'' (test_request False '''') [] = (False, [])
   \<and> isSigninConfirmationEnabledForUser (hashResult_stub hashResult_002) test_config
       (Str ''wibble'') ''blee@mozilla.com'' (test_request False ''iframe'') [] =
       (True, [CreateHash ''sha1'', Update ''wibble'', Update ''signinConfirmation'', Digest ''hex''])"
  using
    isSigninConfirmationEnabledForUser_precedence [of
      "test_config\<lparr>signinConfirmation := (signinConfirmation test_config)\<lparr>sc_enabled := False\<rparr>\<rparr>"
      "hashResult_stub hashResult_002" "Str ''wibble''" "''blee@mozilla.org''"
      "test_request True ''iframe''" "[]"]
    isSigninConfirmationEnabledForUser_precedence [of test_config
      "hashResult_stub hashResult_002" "Str ''wibble''" "''blee@mozilla.com''"
      "test_request True ''''" "[]"]
    isSigninConfirmationEnabledForUser_precedence [of test_config
      "hashResult_stub hashResult_002" "Str ''wibble''" "''blee@mozilla.org''"
      "test_request False ''''" "[]"]
    isSigninConfirmationEnabledForUser_precedence [of
      "test_config\<lparr>signinConfirmation := (signinConfirmation test_config)\<lparr>sc_sample_rate := 1\<rparr>\<rparr>"
      "hashResult_stub hashResult_002" "Str ''wibble''" "''blee@mozilla.com''"
      "test_request False ''''" "[]"]
    isSigninConfirmationEnabledForUser_precedence [of test_config
      "hashResult_stub hashResult_002" "Str ''wibble''" "''blee@mozilla.com''"
      "test_request False ''iframe''" "[]"]
  by (simp add: Let_def fixture_defs isSampledUser_hashResult_002 uid_text_def)

text \<open>
  Claim C5, as amended. \<open>isSigninUnblockEnabledForUser\<close> returns false when the
  feature is disabled; otherwise true when a forced pattern is configured and the email
  matches it; otherwise, for every configuration that has the allowed pattern \<open>q\<close>,
  true when the email matches \<open>q\<close>; otherwise false when the context of the request
  is not one of the supported clients; otherwise the decision of \<open>isSampledUser\<close> with
  the feature's sample rate and the key \<open>signinUnblock\<close>. The override branches leave
  the log of \<open>crypto\<close> calls unchanged and do not depend on the digest, the uid or the
  rate.
\<close>

theorem isSigninUnblockEnabledForUser_precedence:
  "let c = signinUnblock cfg;
       res = isSigninUnblockEnabledForUser D cfg u email r lg;
       forced = (\<exists>p. su_forcedEmailAddresses c = Some p \<and> p email);
       supported = (request_context r \<in> Some ` set (su_supportedClients c))
   in (\<not> su_enabled c \<longrightarrow> res = (Inr False, lg))
      \<and> (su_enabled c \<and> forced \<longrightarrow> res = (Inr True, lg))
      \<and> (\<forall>q. su_allowedEmailAddresses c = Some q \<longrightarrow>
            (su_enabled c \<and> \<not> forced \<and> q email \<longrightarrow> res = (Inr True, lg))
            \<and> (su_enabled c \<and> \<not> forced \<and> \<not> q email \<and> \<not> supported \<longrightarrow> res = (Inr False, lg))
            \<and> (su_enabled c \<and> \<not> forced \<and> \<not> q email \<and> supported \<longrightarrow>
                  res = (Inr (fst (isSampledUser D (su_sampleRate c) u ''signinUnblock'' lg)),
                         snd (isSampledUser D (su_sampleRate c) u ''signinUnblock'' lg)))
            \<and> (\<not> su_enabled c \<or> forced \<or> q email \<or> \<not> supported \<longrightarrow>
                  (\<forall>D' u' rate'.
                     isSigninUnblockEnabledForUser D'
                       (cfg\<lparr>signinUnblock := c\<lparr>su_sampleRate := rate'\<rparr>\<rparr>) u' email r lg = res)))"
  by (auto simp: isSigninUnblockEnabledForUser_def Let_def unsupported_client_iff test_def
           split: option.splits prod.splits)

theorem isSigninUnblockEnabledForUser_precedence_witness:
  "isSigninUnblockEnabledForUser (hashResult_stub hashResult_002)
     (test_config\<lparr>signinUnblock := (signinUnblock test_config)\<lparr>su_enabled := False\<rparr>\<rparr>)
     (Str ''wibble'') ''blee@notmozilla.com'' (test_request False ''iframe'') [] = (Inr False, [])
   \<and> isSigninUnblockEnabledForUser (hashResult_stub hashResult_002)
       (test_config\<lparr>signinUnblock := (signinUnblock test_config)
          \<lparr>su_forcedEmailAddresses := Some (re_any_then ''@mozilla.com''), su_sampleRate := 0\<rparr>\<rparr>)
       (Str ''wibble'') ''blee@mozilla.com'' (test_request False '''') [] = (Inr True, [])
   \<and> isSigninUnblockEnabledForUser (hashResult_stub hashResult_002)
       (test_config\<lparr>signinUnblock := (signinUnblock test_config)\<lparr>su_sampleRate := rate_001\<rparr>\<rparr>)
       (Str ''wibble'') ''blee@notmozilla.com'' (test_request False '''') [] = (Inr True, [])
   \<and> isSigninUnblockEnabledForUser (hashResult_stub hashResult_002)
       (test_config\<lparr>signinUnblock := (signinUnblock test_config)\<lparr>su_sampleRate := 1\<rparr>\<rparr>)
       (Str ''wibble'') ''blee@mozilla.com'' (test_request False '''') [] = (Inr False, [])
   \<and> isSigninUnblockEnabledForUser (hashResult_stub hashResult_002) test_config
       (Str ''wibble'') ''blee@mozilla.com'' (test_request False ''iframe'') [] =
       (Inr True, [CreateHash ''sha1'', Update ''wibble'', Update ''signinUnblock'', Digest ''hex''])"
  using
    isSigninUnblockEnabledForUser_precedence [of
      "test_config\<lparr>signinUnblock := (signinUnblock test_config)\<lparr>su_enabled := False\<rparr>\<rparr>"
      "hashResult_stub hashResult_002" "Str ''wibble''" "''blee@notmozilla.com''"
      "test_request False ''iframe''" "[]"]
    isSigninUnblockEnabledForUser_precedence [of
      "test_config\<lparr>signinUnblock := (signinUnblock test_config)
          \<lparr>su_forcedEmailAddresses := Some (re_any_then ''@mozilla.com''), su_sampleRate := 0\<rparr>\<rparr>"
      "hashResult_stub hashResult_002" "Str ''wibble''" "''blee@mozilla.com''"
      "test_request False ''''" "[]"]
    isSigninUnblockEnabledForUser_precedence [of
      "test_config\<lparr>signinUnblock := (signinUnblock test_config)\<lparr>su_sampleRate := rate_001\<rparr>\<rparr>"
      "hashResult_stub hashResult_002" "Str ''wibble''" "''blee@notmozilla.com''"
      "test_request False ''''" "[]"]
    isSigninUnblockEnabledForUser_precedence [of
      "test_config\<lparr>signinUnblock := (signinUnblock test_config)\<lparr>su_sampleRate := 1\<rparr>\<rparr>"
      "hashResult_stub hashResult_002" "Str ''wibble''" "''blee@mozilla.com''"
      "test_request False ''''" "[]"]
    isSigninUnblockEnabledForUser_precedence [of test_config
      "hashResult_stub hashResult_002" "Str ''wibble''" "''blee@mozilla.com''"
      "test_request False ''iframe''" "[]"]
  by (simp add: Let_def fixture_defs isSampledUser_hashResult_002 uid_text_def)

text \<open>
  Without the allowed pattern the later branches are not reached: with the feature
  enabled, no forced pattern and a context that is not supported, where the claim as
  written says false, \<open>allowedEmailAddresses.test\<close> raises.
\<close>

theorem isSigninUnblockEnabledForUser_precedence_counterexample:
  "su_enabled (signinUnblock
      (test_config\<lparr>signinUnblock := (signinUnblock test_config)\<lparr>su_allowedEmailAddresses := None\<rparr>\<rparr>))
   \<and> su_forcedEmailAddresses (signinUnblock
      (test_config\<lparr>signinUnblock := (signinUnblock test_config)\<lparr>su_allowedEmailAddresses := None\<rparr>\<rparr>))
      = None
   \<and> unsupported_client [''wibble'', ''iframe''] (request_context (test_request False ''''))
   \<and> isSigninUnblockEnabledForUser (hashResult_stub hashResult_002)
       (test_config\<lparr>signinUnblock := (signinUnblock test_config)\<lparr>su_allowedEmailAddresses := None\<rparr>\<rparr>)
       (Str ''wibble'') ''blee@mozilla.com'' (test_request False '''') [] = (Inl TypeError, [])"
  by (simp add: isSigninUnblockEnabledForUser_def unsupported_client_def test_def fixture_defs)

text \<open>
  The result of \<open>canBypassSiginConfirmation\<close> in every case. It is true if and only
  if it is not the case that sign-in confirmation is enabled and the email matches its
  forced pattern, and security history is enabled, and IP profiling is enabled, and
  \<open>verified\<close> holds, and \<open>recency\<close> is \<open>day\<close>. Otherwise it is the boolean
  \<open>false\<close>, except in one case: with history enabled and no \<open>ipProfiling\<close> object in
  the configuration the \<open>&&\<close> chain yields \<open>undefined\<close>.
\<close>

lemma canBypassSiginConfirmation_iff:
  "let sc = signinConfirmation cfg; sh = securityHistory cfg;
       res = canBypassSiginConfirmation cfg email verified recency;
       forced = (sc_enabled sc \<and> sc_forcedEmailAddresses sc email);
       profiling = (\<exists>ip. sh_ipProfiling sh = Some ip \<and> ip_enabled ip)
   in (res = JBool True \<longleftrightarrow>
         \<not> forced \<and> sh_enabled sh \<and> profiling \<and> verified \<and> recency = ''day'')
      \<and> (truthy res \<longleftrightarrow> res = JBool True)
      \<and> (\<not> sh_enabled sh \<or> \<not> profiling \<or> \<not> verified \<or> recency \<noteq> ''day'' \<longrightarrow> \<not> truthy res)
      \<and> (res = JUndefined \<longleftrightarrow> \<not> forced \<and> sh_enabled sh \<and> sh_ipProfiling sh = None)
      \<and> (forced \<or> \<not> sh_enabled sh \<or> sh_ipProfiling sh \<noteq> None \<longrightarrow>
            res = JBool (\<not> forced \<and> sh_enabled sh \<and> profiling \<and> verified \<and> recency = ''day''))"
  by (auto simp: canBypassSiginConfirmation_def ipProfilingEnabled_def Let_def split: option.splits)

lemma canBypassSiginConfirmation_iff_examples:
  "canBypassSiginConfirmation test_config ''test@notforce.com'' True ''day'' = JBool True
   \<and> \<not> truthy (canBypassSiginConfirmation test_config ''test@notforce.com'' True ''week'')
   \<and> \<not> truthy (canBypassSiginConfirmation test_config ''test@notforce.com'' False ''day'')
   \<and> \<not> truthy (canBypassSiginConfirmation
         (test_config\<lparr>securityHistory := (securityHistory test_config)\<lparr>sh_enabled := False\<rparr>\<rparr>)
         ''test@notforce.com'' True ''day'')
   \<and> \<not> truthy (canBypassSiginConfirmation
         (test_config\<lparr>securityHistory := (securityHistory test_config)
            \<lparr>sh_ipProfiling := Some \<lparr>ip_enabled = False\<rparr>\<rparr>\<rparr>)
         ''test@notforce.com'' True ''day'')
   \<and> canBypassSiginConfirmation test_config ''test@mozilla.org'' True ''day'' \<noteq> JBool True"
  using
    canBypassSiginConfirmation_iff [of test_config "''test@notforce.com''" True "''day''"]
    canBypassSiginConfirmation_iff [of test_config "''test@notforce.com''" True "''week''"]
    canBypassSiginConfirmation_iff [of test_config "''test@notforce.com''" False "''day''"]
    canBypassSiginConfirmation_iff [of
      "test_config\<lparr>securityHistory := (securityHistory test_config)\<lparr>sh_enabled := False\<rparr>\<rparr>"
      "''test@notforce.com''" True "''day''"]
    canBypassSiginConfirmation_iff [of
      "test_config\<lparr>securityHistory := (securityHistory test_config)
            \<lparr>sh_ipProfiling := Some \<lparr>ip_enabled = False\<rparr>\<rparr>\<rparr>"
      "''test@notforce.com''" True "''day''"]
    canBypassSiginConfirmation_iff [of test_config "''test@mozilla.org''" True "''day''"]
  by (simp add: Let_def fixture_defs)

text \<open>
  Claim C6. \<open>canBypassSiginConfirmation\<close> is documented to return a boolean, true
  exactly under the conjunction above, so that a failing conjunct makes the result
  false. The module guards against a configuration without an \<open>ipProfiling\<close> object
  but does not turn the guard's value into a boolean: with security history enabled, no
  \<open>ipProfiling\<close> object, a verified user and recency \<open>day\<close>, where IP profiling is the
  one conjunct that fails, the function returns \<open>undefined\<close> and not \<open>false\<close>.
\<close>

theorem canBypassSiginConfirmation_undefined:
  "sh_enabled (securityHistory
      (test_config\<lparr>securityHistory := \<lparr>sh_enabled = True, sh_ipProfiling = None\<rparr>\<rparr>))
   \<and> sh_ipProfiling (securityHistory
      (test_config\<lparr>securityHistory := \<lparr>sh_enabled = True, sh_ipProfiling = None\<rparr>\<rparr>)) = None
   \<and> canBypassSiginConfirmation
       (test_config\<lparr>securityHistory := \<lparr>sh_enabled = True, sh_ipProfiling = None\<rparr>\<rparr>)
       ''test@notforce.com'' True ''day'' = JUndefined"
  by (simp add: canBypassSiginConfirmation_def ipProfilingEnabled_def fixture_defs)

text \<open>
  Claim C7, as amended. When sign-in confirmation is enabled, for every email that
  matches its forced pattern \<open>canBypassSiginConfirmation\<close> returns false, whatever
  \<open>verified\<close>, \<open>recency\<close> and the security-history configuration are.
\<close>

theorem canBypassSiginConfirmation_forced:
  assumes "sc_enabled (signinConfirmation cfg)"
    and "sc_forcedEmailAddresses (signinConfirmation cfg) email"
  shows "canBypassSiginConfirmation cfg email verified recency = JBool False"
  using assms by (simp add: canBypassSiginConfirmation_def)

theorem canBypassSiginConfirmation_forced_witness:
  "sc_enabled (signinConfirmation test_config)
   \<and> sc_forcedEmailAddresses (signinConfirmation test_config) ''test@mozilla.org''
   \<and> canBypassSiginConfirmation test_config ''test@mozilla.org'' True ''day'' = JBool False"
proof -
  have a: "sc_enabled (signinConfirmation test_config)"
    by (simp add: fixture_defs)
  have b: "sc_forcedEmailAddresses (signinConfirmation test_config) ''test@mozilla.org''"
    by (simp add: fixture_defs)
  from a b canBypassSiginConfirmation_forced [OF a b, of True "''day''"] show ?thesis
    by (intro conjI)
qed

text \<open>
  With sign-in confirmation disabled the forced pattern is not consulted, and a
  matching email bypasses confirmation.
\<close>

theorem canBypassSiginConfirmation_forced_counterexample:
  "sc_forcedEmailAddresses
     (signinConfirmation (test_config\<lparr>signinConfirmation := (signinConfirmation test_config)\<lparr>sc_enabled := False\<rparr>\<rparr>))
     ''test@mozilla.org''
   \<and> canBypassSiginConfirmation
       (test_config\<lparr>signinConfirmation := (signinConfirmation test_config)\<lparr>sc_enabled := False\<rparr>\<rparr>)
       ''test@mozilla.org'' True ''day'' = JBool True"
  by (simp add: canBypassSiginConfirmation_def ipProfilingEnabled_def fixture_defs)

text \<open>
  Claim C8, as amended. Of the optional patterns, the forced pattern of sign-in unblock
  may be absent: \<open>isSigninUnblockEnabledForUser\<close> then behaves as with a pattern that
  matches no email, and returns a boolean when the allowed pattern is configured. The
  allowed pattern of sign-in unblock and the enabled-email pattern of last-access-time
  updates are needed where they are consulted: \<open>isSigninUnblockEnabledForUser\<close> raises
  a \<open>TypeError\<close> exactly when the feature is enabled, no forced pattern matches and the
  allowed pattern is absent, and \<open>isLastAccessTimeEnabledForUser\<close> exactly when the
  feature is enabled, the user is not sampled and the enabled-email pattern is absent.
  In every other case each of the two returns a boolean.
\<close>

theorem absent_patterns:
  "let su = signinUnblock cfg; lat = lastAccessTimeUpdates cfg;
       unblock = isSigninUnblockEnabledForUser D cfg u email r lg;
       last = isLastAccessTimeEnabledForUser D cfg u email lg
   in (su_forcedEmailAddresses su = None \<longrightarrow>
         unblock = isSigninUnblockEnabledForUser D
                     (cfg\<lparr>signinUnblock := su\<lparr>su_forcedEmailAddresses := Some (\<lambda>_. False)\<rparr>\<rparr>)
                     u email r lg)
      \<and> (su_forcedEmailAddresses su = None \<and> su_allowedEmailAddresses su \<noteq> None \<longrightarrow>
            (\<exists>b. fst unblock = Inr b))
      \<and> (fst unblock = Inl TypeError \<longleftrightarrow>
           su_enabled su \<and> \<not> (\<exists>p. su_forcedEmailAddresses su = Some p \<and> p email)
           \<and> su_allowedEmailAddresses su = None)
      \<and> (fst unblock \<noteq> Inl TypeError \<longrightarrow> (\<exists>b. fst unblock = Inr b))
      \<and> (fst last = Inl TypeError \<longleftrightarrow>
           lat_enabled lat
           \<and> \<not> fst (isSampledUser D (lat_sampleRate lat) u ''lastAccessTimeUpdates'' lg)
           \<and> lat_enabledEmailAddresses lat = None)
      \<and> (fst last \<noteq> Inl TypeError \<longrightarrow> (\<exists>b. fst last = Inr b))"
  by (auto simp: isSigninUnblockEnabledForUser_def isLastAccessTimeEnabledForUser_def Let_def test_def
           split: option.splits prod.splits bool.splits sum.splits)

theorem absent_patterns_witness:
  "su_forcedEmailAddresses (signinUnblock test_config) = None
   \<and> su_allowedEmailAddresses (signinUnblock test_config) \<noteq> None
   \<and> isSigninUnblockEnabledForUser (hashResult_stub hashResult_002) test_config
       (Str ''wibble'') ''blee@mozilla.com'' (test_request False ''iframe'') [] =
     isSigninUnblockEnabledForUser (hashResult_stub hashResult_002)
       (test_config\<lparr>signinUnblock := (signinUnblock test_config)
          \<lparr>su_forcedEmailAddresses := Some (\<lambda>_. False)\<rparr>\<rparr>)
       (Str ''wibble'') ''blee@mozilla.com'' (test_request False ''iframe'') []
   \<and> (\<exists>b. fst (isSigninUnblockEnabledForUser (hashResult_stub hashResult_002) test_config
       (Str ''wibble'') ''blee@mozilla.com'' (test_request False ''iframe'') []) = Inr b)
   \<and> (\<exists>b. fst (isLastAccessTimeEnabledForUser (hashResult_stub hashResult_002) test_config
       (Str ''wibble'') ''blee@mozilla.com'' []) = Inr b)"
proof -
  have a: "su_forcedEmailAddresses (signinUnblock test_config) = None"
    by (simp add: test_config_def)
  have b: "su_allowedEmailAddresses (signinUnblock test_config) \<noteq> None"
    by (simp add: test_config_def)
  have c: "lat_enabledEmailAddresses (lastAccessTimeUpdates test_config) \<noteq> None"
    by (simp add: test_config_def)
  note inst = absent_patterns [of test_config "hashResult_stub hashResult_002" "Str ''wibble''"
      "''blee@mozilla.com''" "test_request False ''iframe''" "[]", unfolded Let_def]
  from inst a have same:
    "isSigninUnblockEnabledForUser (hashResult_stub hashResult_002) test_config
       (Str ''wibble'') ''blee@mozilla.com'' (test_request False ''iframe'') [] =
     isSigninUnblockEnabledForUser (hashResult_stub hashResult_002)
       (test_config\<lparr>signinUnblock := (signinUnblock test_config)
          \<lparr>su_forcedEmailAddresses := Some (\<lambda>_. False)\<rparr>\<rparr>)
       (Str ''wibble'') ''blee@mozilla.com'' (test_request False ''iframe'') []"
    by blast
  from inst a b have unblock:
    "\<exists>b. fst (isSigninUnblockEnabledForUser (hashResult_stub hashResult_002) test_config
       (Str ''wibble'') ''blee@mozilla.com'' (test_request False ''iframe'') []) = Inr b"
    by blast
  from inst c have last:
    "\<exists>b. fst (isLastAccessTimeEnabledForUser (hashResult_stub hashResult_002) test_config
       (Str ''wibble'') ''blee@mozilla.com'' []) = Inr b"
    by blast
  from a b same unblock last show ?thesis
    by (intro conjI)
qed

text \<open>
  With the enabled-email pattern left out and a user who is not sampled,
  \<open>isLastAccessTimeEnabledForUser\<close> raises; with the allowed-email pattern left out,
  \<open>isSigninUnblockEnabledForUser\<close> raises.
\<close>

theorem absent_patterns_counterexample:
  "isLastAccessTimeEnabledForUser (hashResult_stub hashResult_002)
     (test_config\<lparr>lastAccessTimeUpdates :=
        \<lparr>lat_enabled = True, lat_sampleRate = 0, lat_enabledEmailAddresses = None\<rparr>\<rparr>)
     (Str ''foo'') ''bar@mozilla.com'' [] = (Inl TypeError, [])
   \<and> isSigninUnblockEnabledForUser (hashResult_stub hashResult_002)
       (test_config\<lparr>signinUnblock := (signinUnblock test_config)\<lparr>su_allowedEmailAddresses := None\<rparr>\<rparr>)
       (Str ''wibble'') ''blee@mozilla.com'' (test_request False ''iframe'') [] = (Inl TypeError, [])"
  by (simp add: isLastAccessTimeEnabledForUser_def isSigninUnblockEnabledForUser_def
      isSampledUser_fast_paths_aux test_def fixture_defs)

text \<open>
  Claim C9. \<open>isLastAccessTimeEnabledForUser\<close> returns false when the feature is
  disabled, and otherwise returns true if and only if \<open>isSampledUser\<close> with the
  feature's sample rate and the key \<open>lastAccessTimeUpdates\<close> holds or the email
  matches the enabled-email pattern; with the pattern \<open>p\<close> configured the result is
  the disjunction of the two.
\<close>

theorem isLastAccessTimeEnabledForUser_or:
  "let c = lastAccessTimeUpdates cfg;
       res = isLastAccessTimeEnabledForUser D cfg u email lg;
       s = isSampledUser D (lat_sampleRate c) u ''lastAccessTimeUpdates'' lg
   in (\<not> lat_enabled c \<longrightarrow> res = (Inr False, lg))
      \<and> (lat_enabled c \<longrightarrow>
            (fst res = Inr True \<longleftrightarrow>
               fst s \<or> (\<exists>p. lat_enabledEmailAddresses c = Some p \<and> p email)))
      \<and> (lat_enabled c \<longrightarrow>
            (\<forall>p. lat_enabledEmailAddresses c = Some p \<longrightarrow> res = (Inr (fst s \<or> p email), snd s)))"
  by (auto simp: isLastAccessTimeEnabledForUser_def Let_def test_def split: option.splits prod.splits)

theorem isLastAccessTimeEnabledForUser_or_witness:
  "isLastAccessTimeEnabledForUser (hashResult_stub hashResult_002)
     (test_config\<lparr>lastAccessTimeUpdates := (lastAccessTimeUpdates test_config)\<lparr>lat_enabled := False\<rparr>\<rparr>)
     (Str ''foo'') ''bar@mozilla.org'' [] = (Inr False, [])
   \<and> fst (isLastAccessTimeEnabledForUser (hashResult_stub hashResult_002)
       (test_config\<lparr>lastAccessTimeUpdates := (lastAccessTimeUpdates test_config)\<lparr>lat_sampleRate := 0\<rparr>\<rparr>)
       (Str ''foo'') ''bar@mozilla.org'' []) = Inr True
   \<and> fst (isLastAccessTimeEnabledForUser (hashResult_stub hashResult_002) test_config
       (Str ''foo'') ''bar@mozilla.com'' []) = Inr True
   \<and> fst (isLastAccessTimeEnabledForUser (hashResult_stub hashResult_002)
       (test_config\<lparr>lastAccessTimeUpdates := (lastAccessTimeUpdates test_config)\<lparr>lat_sampleRate := rate_002\<rparr>\<rparr>)
       (Str ''foo'') ''bar@mozilla.com'' []) = Inr False"
  using
    isLastAccessTimeEnabledForUser_or [of
      "test_config\<lparr>lastAccessTimeUpdates := (lastAccessTimeUpdates test_config)\<lparr>lat_enabled := False\<rparr>\<rparr>"
      "hashResult_stub hashResult_002" "Str ''foo''" "''bar@mozilla.org''" "[]"]
    isLastAccessTimeEnabledForUser_or [of
      "test_config\<lparr>lastAccessTimeUpdates := (lastAccessTimeUpdates test_config)\<lparr>lat_sampleRate := 0\<rparr>\<rparr>"
      "hashResult_stub hashResult_002" "Str ''foo''" "''bar@mozilla.org''" "[]"]
    isLastAccessTimeEnabledForUser_or [of test_config
      "hashResult_stub hashResult_002" "Str ''foo''" "''bar@mozilla.com''" "[]"]
    isLastAccessTimeEnabledForUser_or [of
      "test_config\<lparr>lastAccessTimeUpdates := (lastAccessTimeUpdates test_config)\<lparr>lat_sampleRate := rate_002\<rparr>\<rparr>"
      "hashResult_stub hashResult_002" "Str ''foo''" "''bar@mozilla.com''" "[]"]
  by (simp add: Let_def fixture_defs isSampledUser_hashResult_002 isSampledUser_fast_paths_aux)

section \<open>The assertions of the module's tests\<close>

text \<open>
  The embedding gives the results that the module's tests assert for \<open>isSampledUser\<close>,
  \<open>isLastAccessTimeEnabledForUser\<close>, \<open>isSigninConfirmationEnabledForUser\<close> and
  \<open>canBypassSiginConfirmation\<close>, with the calls to \<open>crypto\<close> that they count. The
  cohort value of the digest that ends in \<open>a3d70a3d70a6\<close> is a little above the number
  \<open>0.04\<close>, so the comparison with that rate is false.
\<close>

lemma isSampledUser_hashResult_004:
  assumes "r \<noteq> 1" and "r \<noteq> 0"
  shows "isSampledUser (hashResult_stub hashResult_004) r u key lg =
           (5764607523034305 / 144115188075855872 < r,
            lg @ [CreateHash ''sha1'', Update (uid_text u), Update key, Digest ''hex''])"
proof -
  have "cohort (hashResult_stub hashResult_004) (hashResult_stub hashResult_004 (uid_text u @ key))
          = Num (5764607523034305 / 144115188075855872)"
    using cohort_hashResult_004 by (simp add: hashResult_stub_def)
  with isSampledUser_general [OF assms, of "hashResult_stub hashResult_004" u key lg]
  show ?thesis by simp
qed

lemma toString_hex_ff: "toString_hex (replicate n 0xff) = replicate (2 * n) CHR ''f''"
  by (induction n) (simp_all add: toString_hex_def hex_char_def)

lemma test_isSampledUser:
  shows "isSampledUser (hashResult_stub hashResult_f) 1 (Buf (replicate 32 0xff)) ''foo'' [] = (True, [])"
    and "isSampledUser (hashResult_stub (replicate 40 CHR ''0'')) 0 (Buf (replicate 32 0xff)) ''foo'' []
           = (False, [])"
    and "isSampledUser (hashResult_stub hashResult_004) rate_005 (Buf (replicate 32 0xff)) ''foo'' []
           = (True, [CreateHash ''sha1'', Update (replicate 64 CHR ''f''), Update ''foo'', Digest ''hex''])"
    and "isSampledUser (hashResult_stub hashResult_004) rate_004 (Buf (replicate 32 0xff)) ''bar'' []
           = (False, [CreateHash ''sha1'', Update (replicate 64 CHR ''f''), Update ''bar'', Digest ''hex''])"
    and "fst (isSampledUser (hashResult_stub hashResult_004) rate_003 (Buf (replicate 32 0xff)) ''foo'' [])
           = False"
    and "isSampledUser (hashResult_stub hashResult_002) rate_003 (Str (replicate 64 CHR ''7'')) ''wibble'' []
           = (True, [CreateHash ''sha1'', Update (replicate 64 CHR ''7''), Update ''wibble'', Digest ''hex''])"
  by (simp_all add: isSampledUser_fast_paths_aux isSampledUser_hashResult_004
      isSampledUser_hashResult_002 rate_defs uid_text_def toString_hex_ff)

lemma test_isLastAccessTimeEnabledForUser:
  shows "fst (isLastAccessTimeEnabledForUser (hashResult_stub hashResult_002)
           (test_config\<lparr>lastAccessTimeUpdates := \<lparr>lat_enabled = True, lat_sampleRate = 0,
              lat_enabledEmailAddresses = Some (re_any_then ''@mozilla.com'')\<rparr>\<rparr>)
           (Str ''foo'') ''bar@mozilla.com'' []) = Inr True"
    and "fst (isLastAccessTimeEnabledForUser (hashResult_stub hashResult_002)
           (test_config\<lparr>lastAccessTimeUpdates := \<lparr>lat_enabled = True, lat_sampleRate = 0,
              lat_enabledEmailAddresses = Some (re_any_then ''@mozilla.org'')\<rparr>\<rparr>)
           (Str ''foo'') ''bar@mozilla.com'' []) = Inr False"
    and "fst (isLastAccessTimeEnabledForUser (hashResult_stub hashResult_002)
           (test_config\<lparr>lastAccessTimeUpdates := \<lparr>lat_enabled = True, lat_sampleRate = rate_003,
              lat_enabledEmailAddresses = Some (re_any_then ''@mozilla.org'')\<rparr>\<rparr>)
           (Str ''foo'') ''bar@mozilla.com'' []) = Inr True"
    and "fst (isLastAccessTimeEnabledForUser (hashResult_stub hashResult_002)
           (test_config\<lparr>lastAccessTimeUpdates := \<lparr>lat_enabled = True, lat_sampleRate = rate_002,
              lat_enabledEmailAddresses = Some (re_any_then ''@mozilla.org'')\<rparr>\<rparr>)
           (Str ''foo'') ''bar@mozilla.com'' []) = Inr False"
    and "fst (isLastAccessTimeEnabledForUser (hashResult_stub hashResult_002)
           (test_config\<lparr>lastAccessTimeUpdates := \<lparr>lat_enabled = False, lat_sampleRate = rate_003,
              lat_enabledEmailAddresses = Some (re_any_then ''@mozilla.com'')\<rparr>\<rparr>)
           (Str ''foo'') ''bar@mozilla.com'' []) = Inr False"
  by (simp_all add: isLastAccessTimeEnabledForUser_def isSampledUser_fast_paths_aux
      isSampledUser_hashResult_002 test_def fixture_defs)

lemma test_isSigninConfirmationEnabledForUser:
  shows "fst (isSigninConfirmationEnabledForUser (hashResult_stub hashResult_002)
           (test_config\<lparr>signinConfirmation := \<lparr>sc_enabled = True, sc_sample_rate = rate_003,
              sc_forcedEmailAddresses = re_any_then ''@mozilla.com'',
              sc_supportedClients = [''wibble'', ''iframe'']\<rparr>\<rparr>)
           (Str ''wibble'') ''blee@mozilla.com'' (test_request True ''iframe'') []) = True"
    and "fst (isSigninConfirmationEnabledForUser (hashResult_stub hashResult_002)
           (test_config\<lparr>signinConfirmation := \<lparr>sc_enabled = True, sc_sample_rate = rate_002,
              sc_forcedEmailAddresses = re_any_then ''@mozilla.com'',
              sc_supportedClients = [''wibble'', ''iframe'']\<rparr>\<rparr>)
           (Str ''wibble'') ''blee@mozilla.com'' (test_request False ''iframe'') []) = True"
    and "fst (isSigninConfirmationEnabledForUser (hashResult_stub hashResult_002)
           (test_config\<lparr>signinConfirmation := \<lparr>sc_enabled = True, sc_sample_rate = rate_002,
              sc_forcedEmailAddresses = re_any_then ''@mozilla.org'',
              sc_supportedClients = [''wibble'', ''iframe'']\<rparr>\<rparr>)
           (Str ''wibble'') ''blee@mozilla.com'' (test_request False ''iframe'') []) = False"
    and "fst (isSigninConfirmationEnabledForUser (hashResult_stub hashResult_002)
           (test_config\<lparr>signinConfirmation := \<lparr>sc_enabled = True, sc_sample_rate = rate_003,
              sc_forcedEmailAddresses = re_any_then ''@mozilla.org'',
              sc_supportedClients = [''wibble'', ''iframe'']\<rparr>\<rparr>)
           (Str ''wibble'') ''blee@mozilla.com'' (test_request False ''iframe'') []) = True"
    and "fst (isSigninConfirmationEnabledForUser (hashResult_stub hashResult_002)
           (test_config\<lparr>signinConfirmation := \<lparr>sc_enabled = True, sc_sample_rate = rate_003,
              sc_forcedEmailAddresses = re_any_then ''@mozilla.org'',
              sc_supportedClients = [''wibble'', ''iframe'']\<rparr>\<rparr>)
           (Str ''wibble'') ''blee@mozilla.com'' (test_request False '''') []) = False"
    and "fst (isSigninConfirmationEnabledForUser (hashResult_stub hashResult_002)
           (test_config\<lparr>signinConfirmation := \<lparr>sc_enabled = False, sc_sample_rate = rate_003,
              sc_forcedEmailAddresses = re_any_then ''@mozilla.org'',
              sc_supportedClients = [''wibble'', ''iframe'']\<rparr>\<rparr>)
           (Str ''wibble'') ''blee@mozilla.com'' (test_request False ''iframe'') []) = False"
  by (simp_all add: isSigninConfirmationEnabledForUser_def unsupported_client_def
      isSampledUser_hashResult_002 fixture_defs)

lemma test_canBypassSiginConfirmation:
  shows "canBypassSiginConfirmation
           (test_config\<lparr>signinConfirmation := (signinConfirmation test_config)\<lparr>sc_enabled := False\<rparr>,
              securityHistory := \<lparr>sh_enabled = True, sh_ipProfiling = Some \<lparr>ip_enabled = True\<rparr>\<rparr>\<rparr>)
           ''test@notforce.com'' True ''day'' = JBool True"
    and "canBypassSiginConfirmation
           (test_config\<lparr>signinConfirmation := (signinConfirmation test_config)\<lparr>sc_enabled := False\<rparr>,
              securityHistory := \<lparr>sh_enabled = True, sh_ipProfiling = Some \<lparr>ip_enabled = False\<rparr>\<rparr>\<rparr>)
           ''test@notforce.com'' True ''day'' = JBool False"
    and "canBypassSiginConfirmation
           (test_config\<lparr>signinConfirmation := (signinConfirmation test_config)\<lparr>sc_enabled := False\<rparr>,
              securityHistory := \<lparr>sh_enabled = True, sh_ipProfiling = Some \<lparr>ip_enabled = True\<rparr>\<rparr>\<rparr>)
           ''test@notforce.com'' True ''week'' = JBool False"
    and "canBypassSiginConfirmation
           (test_config\<lparr>signinConfirmation := (signinConfirmation test_config)\<lparr>sc_enabled := False\<rparr>,
              securityHistory := \<lparr>sh_enabled = False, sh_ipProfiling = Some \<lparr>ip_enabled = True\<rparr>\<rparr>\<rparr>)
           ''test@notforce.com'' True ''day'' = JBool False"
    and "canBypassSiginConfirmation
           (test_config\<lparr>signinConfirmation := \<lparr>sc_enabled = True, sc_sample_rate = 1,
              sc_forcedEmailAddresses = re_any_then ''@force.com'',
              sc_supportedClients = [''wibble'', ''iframe'']\<rparr>,
              securityHistory := \<lparr>sh_enabled = True, sh_ipProfiling = Some \<lparr>ip_enabled = True\<rparr>\<rparr>\<rparr>)
           ''test@force.com'' True ''day'' = JBool False"
  by (simp_all add: canBypassSiginConfirmation_def ipProfilingEnabled_def fixture_defs)

end
